theory Spec2Isabelle
  imports Main "HOL-Library.AList"
begin

section \<open>Python values and exceptions\<close>

text \<open>
  The service (\<^verbatim>\<open>src/main.py\<close>) has two request handlers, \<^verbatim>\<open>generate_quiz\<close> and
  \<^verbatim>\<open>submit_quiz\<close>. Both work on untyped Python data: the questions are whatever
  \<^verbatim>\<open>json.loads\<close> returned, stored and read back as dictionaries. The class
  \<^verbatim>\<open>Question\<close> is declared in the source but never applied to that data, so the
  model keeps the values as Python has them.

  Text is modelled as \<^typ>\<open>string\<close>, one \<^typ>\<open>char\<close> for each character of the Python
  \<^verbatim>\<open>str\<close>; characters beyond the 8-bit range are outside the model.
\<close>

datatype pyval =
    PNone
  | PBool bool
  | PInt int
  | PFloat string \<comment> \<open>a float, kept as the literal that denotes it\<close>
  | PStr string
  | PList "pyval list"
  | PDict "(string \<times> pyval) list" \<comment> \<open>keys in insertion order, each key once\<close>

type_synonym pydict = "(string \<times> pyval) list"

text \<open>
  Exceptions are values. \<^verbatim>\<open>HTTPException(status_code=n, detail=d)\<close> carries its
  detail; where the source writes \<^verbatim>\<open>detail=str(e)\<close> the model keeps the exception
  \<open>e\<close> itself (\<open>Str e\<close>) instead of committing to the text of its message.
  \<open>NotModelled\<close> is not a Python exception: it marks the places where the model of a
  library function stops (they are listed where they occur).
\<close>

datatype exn =
    KeyError string
  | IndexError
  | ValueError
  | TypeError
  | JSONDecodeError
  | ServiceError string \<comment> \<open>raised by an external service\<close>
  | NotModelled
  | HTTPException nat detail
and detail =
    Text string
  | Str exn

text \<open>\<^verbatim>\<open>d[k] = v\<close> on a dictionary: an existing key keeps its place, a new key goes last.\<close>

definition dict_set :: "pydict \<Rightarrow> string \<Rightarrow> pyval \<Rightarrow> pydict" where
  "dict_set d k v = AList.update k v d"

text \<open>\<^verbatim>\<open>d.get(k)\<close>, with \<open>None\<close> for Python's \<^verbatim>\<open>None\<close> default.\<close>

definition dict_get :: "pydict \<Rightarrow> string \<Rightarrow> pyval option" where
  "dict_get d k = map_of d k"

text \<open>\<^verbatim>\<open>q[k]\<close> read on any value: only a dictionary can be subscripted by a string.\<close>

fun getitem :: "pyval \<Rightarrow> string \<Rightarrow> exn + pyval" where
  "getitem (PDict d) k = (case dict_get d k of None \<Rightarrow> Inl (KeyError k) | Some v \<Rightarrow> Inr v)"
| "getitem _ k = Inl TypeError"


text \<open>
  \<^verbatim>\<open>for q in x\<close>: the sequence a value iterates over. A list yields its elements, a
  dictionary its keys, a string its characters; nothing else is iterable. \<^verbatim>\<open>len(x)\<close>
  is the length of that sequence for these three kinds of value.
\<close>

fun py_iter :: "pyval \<Rightarrow> exn + pyval list" where
  "py_iter (PList xs) = Inr xs"
| "py_iter (PDict d) = Inr (map (\<lambda>(k, v). PStr k) d)"
| "py_iter (PStr s) = Inr (map (\<lambda>c. PStr [c]) s)"
| "py_iter _ = Inl TypeError"

section \<open>String operations of the handlers\<close>




section \<open>The prompt template\<close>

text \<open>
  \<^verbatim>\<open>quiz_prompt\<close> is a \<^verbatim>\<open>PromptTemplate\<close> in the default f-string format: its
  \<^verbatim>\<open>format(**kwargs)\<close> hands the template and the keyword arguments to Python's
  \<^verbatim>\<open>string.Formatter.vformat\<close> with no positional arguments. The formatter reads
  the template from left to right. Outside a field, \<^verbatim>\<open>{{\<close> and \<^verbatim>\<open>}}\<close> are literal
  braces, a single \<^verbatim>\<open>}\<close> is an error and a single \<^verbatim>\<open>{\<close> opens a replacement field
  \<^verbatim>\<open>{name!conversion:spec}\<close>. Each field is looked up and formatted as soon as it has
  been read, before the text after it is looked at.
\<close>

record prompt_template =
  input_variables :: "string list"
  template :: string

type_synonym kwargs = "(string \<times> string) list"

text \<open>
  One completed field. The name up to the first \<^verbatim>\<open>.\<close> or \<^verbatim>\<open>[\<close> selects the
  argument: a number (or the empty name) is a positional argument, and none was passed;
  anything else is a keyword, missing keywords raise \<^verbatim>\<open>KeyError\<close>. The lookup comes
  first, conversion and format specification after it. The arguments are strings; with
  no conversion (or \<^verbatim>\<open>!s\<close>) and an empty specification a string formats as itself.
  Not modelled: attribute and index access on the argument, the conversions \<^verbatim>\<open>!r\<close> and
  \<^verbatim>\<open>!a\<close>, a non-empty format specification, positional numbers of more than 18 digits.
\<close>

definition format_field :: "kwargs \<Rightarrow> string \<Rightarrow> char option \<Rightarrow> string \<Rightarrow> exn + string" where
  "format_field kw nm conv spec =
     (let first = takeWhile (\<lambda>c. c \<noteq> CHR ''.'' \<and> c \<noteq> CHR ''['') nm;
          rest = dropWhile (\<lambda>c. c \<noteq> CHR ''.'' \<and> c \<noteq> CHR ''['') nm
      in if nm = [] then Inl IndexError
         else if first \<noteq> [] \<and> list_all (\<lambda>c. c \<in> set ''0123456789'') first
           then (if length first \<le> 18 then Inl IndexError else Inl NotModelled)
         else (case map_of kw first of
                 None \<Rightarrow> Inl (KeyError first)
               | Some obj \<Rightarrow>
                   if rest \<noteq> [] then Inl NotModelled
                   else if conv \<noteq> None \<and> conv \<noteq> Some (CHR ''s'')
                     then (if conv = Some (CHR ''r'') \<or> conv = Some (CHR ''a'')
                           then Inl NotModelled else Inl ValueError)
                   else if spec \<noteq> [] then Inl NotModelled
                   else Inr obj))"

datatype fmt_mode =
    InText \<comment> \<open>literal text\<close>
  | InName bool string \<comment> \<open>in a field name; the flag is set between \<^verbatim>\<open>[\<close> and \<^verbatim>\<open>]\<close>\<close>
  | InConv string \<comment> \<open>after \<^verbatim>\<open>!\<close>: the conversion character comes next\<close>
  | AfterConv string char \<comment> \<open>after the conversion character: \<^verbatim>\<open>}\<close> or \<^verbatim>\<open>:\<close>\<close>
  | InSpec string "char option" nat string \<comment> \<open>in a format specification, at a brace depth\<close>

fun vformat :: "kwargs \<Rightarrow> fmt_mode \<Rightarrow> string \<Rightarrow> string \<Rightarrow> exn + string" where
  "vformat kw InText out [] = Inr out"
| "vformat kw InText out [c] =
     (if c = CHR ''{'' \<or> c = CHR ''}'' then Inl ValueError else Inr (out @ [c]))"
| "vformat kw InText out (c # d # ds) =
     (if c = CHR ''}'' then
        (if d = CHR ''}'' then vformat kw InText (out @ [c]) ds else Inl ValueError)
      else if c = CHR ''{'' then
        (if d = CHR ''{'' then vformat kw InText (out @ [c]) ds
         else vformat kw (InName False []) out (d # ds))
      else vformat kw InText (out @ [c]) (d # ds))"
| "vformat kw (InName br nm) out [] = Inl ValueError"
| "vformat kw (InName br nm) out (c # cs) =
     (if br then vformat kw (InName (c \<noteq> CHR '']'') (nm @ [c])) out cs
      else if c = CHR ''{'' then Inl ValueError
      else if c = CHR ''['' then vformat kw (InName True (nm @ [c])) out cs
      else if c = CHR ''}'' then
        (case format_field kw nm None [] of
           Inl e \<Rightarrow> Inl e
         | Inr s \<Rightarrow> vformat kw InText (out @ s) cs)
      else if c = CHR '':'' then vformat kw (InSpec nm None 1 []) out cs
      else if c = CHR ''!'' then vformat kw (InConv nm) out cs
      else vformat kw (InName False (nm @ [c])) out cs)"
| "vformat kw (InConv nm) out [] = Inl ValueError"
| "vformat kw (InConv nm) out (c # cs) = vformat kw (AfterConv nm c) out cs"
| "vformat kw (AfterConv nm cv) out [] = Inl ValueError"
| "vformat kw (AfterConv nm cv) out (c # cs) =
     (if c = CHR ''}'' then
        (case format_field kw nm (Some cv) [] of
           Inl e \<Rightarrow> Inl e
         | Inr s \<Rightarrow> vformat kw InText (out @ s) cs)
      else if c = CHR '':'' then vformat kw (InSpec nm (Some cv) 1 []) out cs
      else Inl ValueError)"
| "vformat kw (InSpec nm cv n sp) out [] = Inl ValueError"
| "vformat kw (InSpec nm cv n sp) out (c # cs) =
     (if c = CHR ''{'' then vformat kw (InSpec nm cv (Suc n) (sp @ [c])) out cs
      else if c = CHR ''}'' then
        (if n = 1 then
           (case format_field kw nm cv sp of
              Inl e \<Rightarrow> Inl e
            | Inr s \<Rightarrow> vformat kw InText (out @ s) cs)
         else vformat kw (InSpec nm cv (n - 1) (sp @ [c])) out cs)
      else vformat kw (InSpec nm cv n (sp @ [c])) out cs)"

text \<open>\<^verbatim>\<open>PromptTemplate.format(**kwargs)\<close>.\<close>

definition format_prompt :: "prompt_template \<Rightarrow> kwargs \<Rightarrow> exn + string" where
  "format_prompt pt kw = vformat kw InText [] (template pt)"

text \<open>The template of the source (lines 48 to 51), character for character.\<close>

definition quiz_prompt :: prompt_template where
  "quiz_prompt = \<lparr>
     input_variables = [''topic'', ''difficulty''],
     template = ''Generate 5 {difficulty} multiple-choice questions about {topic}. Format as JSON: [{'id':'uuid','question':'text','options':['a','b','c','d'],'correct_answer':'a'}]''
   \<rparr>"

section \<open>The external services\<close>



record vector =
  vec_values :: "int list"
  metadata :: pydict

record env =
  index :: "string \<rightharpoonup> vector"
  uuid_source :: "nat \<Rightarrow> string" \<comment> \<open>the identifiers \<^verbatim>\<open>str(uuid.uuid4())\<close> yields, in order\<close>
  uuid_count :: nat \<comment> \<open>how many of them have been drawn\<close>



definition fetch :: "env \<Rightarrow> string list \<Rightarrow> (string \<times> vector) list" where
  "fetch e ids = List.map_filter (\<lambda>i. map_option (Pair i) (index e i)) ids"

text \<open>The given fields, followed by the stored fields that were not given.\<close>

definition merge_metadata :: "pydict \<Rightarrow> pydict \<Rightarrow> pydict" where
  "merge_metadata old new = new @ filter (\<lambda>(k, x). dict_get new k = None) old"

definition update :: "env \<Rightarrow> string \<Rightarrow> pydict \<Rightarrow> exn + env" where
  "update e i md =
     (case index e i of
        None \<Rightarrow> Inl (ServiceError ''NotFound'')
      | Some v \<Rightarrow>
          Inr (e\<lparr>index := (index e)(i \<mapsto> v\<lparr>metadata := merge_metadata (metadata v) md\<rparr>)\<rparr>))"

section \<open>Quiz generation\<close>

record QuizRequest =
  topic :: string
  difficulty :: string
  user_id :: string








section \<open>Quiz submission\<close>

text \<open>
  The first field is \<^verbatim>\<open>user_id\<close> in the source; it is renamed because \<open>QuizRequest\<close> has
  a field of that name. The handler does not read it.
\<close>

record QuizSubmission =
  sub_user_id :: string
  quiz_id :: string
  responses :: "string \<rightharpoonup> string"

text \<open>
  \<^verbatim>\<open>submission.responses.get(k)\<close> for a key \<open>k\<close> read from a stored question. The keys
  of \<^verbatim>\<open>responses\<close> are strings, so only a string can be found; a list or a dictionary
  is not hashable.
\<close>

fun responses_get :: "(string \<rightharpoonup> string) \<Rightarrow> pyval \<Rightarrow> exn + string option" where
  "responses_get rs (PStr k) = Inr (rs k)"
| "responses_get rs (PList xs) = Inl TypeError"
| "responses_get rs (PDict d) = Inl TypeError"
| "responses_get rs _ = Inr None"

text \<open>
  \<^verbatim>\<open>==\<close> between the result of \<^verbatim>\<open>get\<close> (a string, or \<^verbatim>\<open>None\<close>) and a stored value.
\<close>

fun py_eq :: "string option \<Rightarrow> pyval \<Rightarrow> bool" where
  "py_eq None PNone = True"
| "py_eq (Some a) (PStr c) = (a = c)"
| "py_eq _ _ = False"

text \<open>Lines 97 to 100, with the running score as an argument.\<close>

fun score_loop :: "(string \<rightharpoonup> string) \<Rightarrow> int \<Rightarrow> pyval list \<Rightarrow> exn + int" where
  "score_loop rs score [] = Inr score"
| "score_loop rs score (q # qs) =
     (case getitem q ''id'' of
        Inl x \<Rightarrow> Inl x
      | Inr i \<Rightarrow>
     (case responses_get rs i of
        Inl x \<Rightarrow> Inl x
      | Inr a \<Rightarrow>
     (case getitem q ''correct_answer'' of
        Inl x \<Rightarrow> Inl x
      | Inr c \<Rightarrow> score_loop rs (if py_eq a c then score + 1 else score) qs)))"

text \<open>The body of the \<^verbatim>\<open>try\<close> block of \<^verbatim>\<open>submit_quiz\<close> (lines 89 to 107).\<close>

definition submit_quiz_try :: "env \<Rightarrow> QuizSubmission \<Rightarrow> (exn + pyval) \<times> env" where
  "submit_quiz_try e submission =
     (let vectors = fetch e [quiz_id submission] in
      if vectors = [] then (Inl (HTTPException 404 (Text ''Quiz not found'')), e)
      else
     (case map_of vectors (quiz_id submission) of
        None \<Rightarrow> (Inl (KeyError (quiz_id submission)), e)
      | Some v \<Rightarrow>
     (case getitem (PDict (metadata v)) ''questions'' of
        Inl x \<Rightarrow> (Inl x, e)
      | Inr questions \<Rightarrow>
     (case py_iter questions of
        Inl x \<Rightarrow> (Inl x, e)
      | Inr qs \<Rightarrow>
     (case score_loop (responses submission) 0 qs of
        Inl x \<Rightarrow> (Inl x, e)
      | Inr score \<Rightarrow>
          (let md = dict_set (dict_set (metadata v) ''score'' (PInt score))
                      ''completed'' (PBool True)
           in case update e (quiz_id submission) md of
                Inl x \<Rightarrow> (Inl x, e)
              | Inr e' \<Rightarrow>
                  (Inr (PDict [(''score'', PInt score),
                               (''total'', PInt (int (length qs)))]), e')))))))"

text \<open>
  The handler: the \<^verbatim>\<open>except Exception\<close> clause (lines 109 and 110) catches whatever
  the body raises, the \<^verbatim>\<open>HTTPException\<close> of line 91 included, since
  \<^verbatim>\<open>HTTPException\<close> is a subclass of \<^verbatim>\<open>Exception\<close>.
\<close>

definition submit_quiz :: "env \<Rightarrow> QuizSubmission \<Rightarrow> (exn + pyval) \<times> env" where
  "submit_quiz e submission =
     (case submit_quiz_try e submission of
        (Inl x, e') \<Rightarrow> (Inl (HTTPException 500 (Str x)), e')
      | (Inr body, e') \<Rightarrow> (Inr body, e'))"

section \<open>Vocabulary of the claims\<close>

text \<open>
  The questions of a stored record: the sequence that \<^verbatim>\<open>metadata['questions']\<close>
  iterates over.
\<close>

definition stored_questions :: "vector \<Rightarrow> pyval list" where
  "stored_questions v =
     (case dict_get (metadata v) ''questions'' of
        None \<Rightarrow> []
      | Some qv \<Rightarrow> (case py_iter qv of Inl x \<Rightarrow> [] | Inr qs \<Rightarrow> qs))"

text \<open>
  The score as the specification words it: a question counts when a response is
  present under its id and that response is, as a string, equal to the stored
  \<^verbatim>\<open>correct_answer\<close>; a missing response does not count.
\<close>

definition answered_correctly :: "(string \<rightharpoonup> string) \<Rightarrow> pyval \<Rightarrow> bool" where
  "answered_correctly rs q =
     (case getitem q ''id'' of
        Inr (PStr k) \<Rightarrow>
          (case rs k of None \<Rightarrow> False | Some a \<Rightarrow> getitem q ''correct_answer'' = Inr (PStr a))
      | _ \<Rightarrow> False)"

definition claimed_score :: "(string \<rightharpoonup> string) \<Rightarrow> pyval list \<Rightarrow> int" where
  "claimed_score rs qs = int (length (filter (answered_correctly rs) qs))"

section \<open>Example runs\<close>

text \<open>A store that holds one quiz of two questions, and two submissions.\<close>

definition example_questions :: "pyval list" where
  "example_questions =
     [PDict [(''id'', PStr ''q-1''), (''question'', PStr ''2+2?''),
             (''options'', PList [PStr ''3'', PStr ''4'']), (''correct_answer'', PStr ''4'')],
      PDict [(''id'', PStr ''q-2''), (''question'', PStr ''Pick b''),
             (''options'', PList [PStr ''a'', PStr ''b'']), (''correct_answer'', PStr ''b'')]]"

definition example_vector :: vector where
  "example_vector = \<lparr>vec_values = replicate 768 0,
     metadata = [(''user_id'', PStr ''u1''), (''topic'', PStr ''Photosynthesis''),
                 (''difficulty'', PStr ''easy''), (''questions'', PList example_questions)]\<rparr>"

definition example_uuids :: "nat \<Rightarrow> string" where
  "example_uuids n = ''id'' @ replicate n (CHR ''*'')"

definition stored_env :: env where
  "stored_env = \<lparr>index = [''quiz-1'' \<mapsto> example_vector],
     uuid_source = example_uuids, uuid_count = 3\<rparr>"

definition example_responses :: "string \<rightharpoonup> string" where
  "example_responses = [''q-1'' \<mapsto> ''4'', ''q-2'' \<mapsto> ''B'']"

definition example_submission :: QuizSubmission where
  "example_submission = \<lparr>sub_user_id = ''u1'', quiz_id = ''quiz-1'',
     responses = example_responses\<rparr>"

definition unknown_submission :: QuizSubmission where
  "unknown_submission = \<lparr>sub_user_id = ''u1'', quiz_id = ''quiz-2'',
     responses = example_responses\<rparr>"

text \<open>The store after \<open>example_submission\<close>.\<close>

definition example_vector_after :: vector where
  "example_vector_after = \<lparr>vec_values = replicate 768 0,
     metadata = [(''user_id'', PStr ''u1''), (''topic'', PStr ''Photosynthesis''),
                 (''difficulty'', PStr ''easy''), (''questions'', PList example_questions),
                 (''score'', PInt 1), (''completed'', PBool True)]\<rparr>"

definition stored_env_after :: env where
  "stored_env_after = \<lparr>index = [''quiz-1'' \<mapsto> example_vector_after],
     uuid_source = example_uuids, uuid_count = 3\<rparr>"

text \<open>A stored quiz whose only question has \<^verbatim>\<open>null\<close> as its answer, and a submission without responses.\<close>

definition null_answer_questions :: "pyval list" where
  "null_answer_questions =
     [PDict [(''question'', PStr ''x''), (''correct_answer'', PNone), (''id'', PStr ''q-1'')]]"

definition null_answer_vector :: vector where
  "null_answer_vector = \<lparr>vec_values = replicate 768 0,
     metadata = [(''user_id'', PStr ''u1''), (''topic'', PStr ''Photosynthesis''),
                 (''difficulty'', PStr ''easy''),
                 (''questions'', PList null_answer_questions)]\<rparr>"

definition null_answer_env :: env where
  "null_answer_env = \<lparr>index = [''quiz-1'' \<mapsto> null_answer_vector],
     uuid_source = example_uuids, uuid_count = 2\<rparr>"

definition empty_submission :: QuizSubmission where
  "empty_submission = \<lparr>sub_user_id = ''u1'', quiz_id = ''quiz-1'', responses = Map.empty\<rparr>"

section \<open>Example requests\<close>






section \<open>Dictionaries and the store\<close>

lemma dict_get_dict_set: "dict_get (dict_set d k v) k' = (if k' = k then Some v else dict_get d k')"
  by (simp add: dict_get_def dict_set_def update_conv')

lemma dict_get_merge_metadata:
  "dict_get (merge_metadata old new) k =
     (case dict_get new k of None \<Rightarrow> dict_get old k | Some v \<Rightarrow> Some v)"
proof -
  have "map_of (filter (\<lambda>(k, x). map_of new k = None) old) k =
          (if map_of new k = None then map_of old k else None)"
    by (induction old) auto
  then show ?thesis
    by (auto simp: merge_metadata_def dict_get_def map_add_def split: option.splits)
qed

lemma fetch_single:
  "fetch e [i] = (case index e i of None \<Rightarrow> [] | Some v \<Rightarrow> [(i, v)])"
  by (simp add: fetch_def List.map_filter_simps split: option.splits)

section \<open>The prompt of the source cannot be rendered\<close>

text \<open>
  Claim C2 says that rendering the prompt succeeds for every pair of strings and returns
  the template with topic and difficulty substituted. The template of the source ends in
  an example of the expected JSON whose braces are not doubled, so the formatter reads
  \<^verbatim>\<open>{'id':'uuid',...}\<close> as a third replacement field, named \<^verbatim>\<open>'id'\<close> with the
  quotes. No such argument is passed: for every topic and every difficulty the call
  raises \<^verbatim>\<open>KeyError\<close> after the two real fields have been substituted.
\<close>

theorem quiz_prompt_format_raises:
  "format_prompt quiz_prompt [(''topic'', t), (''difficulty'', d)] =
     Inl (KeyError (CHR 0x27 # ''id'' @ [CHR 0x27]))"
  by (simp add: format_prompt_def quiz_prompt_def format_field_def)

theorem quiz_prompt_format_raises_witness:
  "format_prompt quiz_prompt [(''topic'', ''Photosynthesis''), (''difficulty'', ''easy'')] =
     Inl (KeyError (CHR 0x27 # ''id'' @ [CHR 0x27]))"
  using quiz_prompt_format_raises [of "''Photosynthesis''" "''easy''"] by simp

section \<open>Submission: an unknown quiz\<close>

text \<open>
  Claim C1 says that \<^verbatim>\<open>submit_quiz\<close> with a \<^verbatim>\<open>quiz_id\<close> that the store does not hold
  fails with a 404 response and never with a generic 500. The handler does raise the 404
  exception (line 91), but inside its own \<^verbatim>\<open>try\<close> block, whose \<^verbatim>\<open>except Exception\<close>
  clause catches it and raises a 500 in its place: the caller always sees status 500,
  with the 404 exception only as the text of the detail. The store is left as it was.
\<close>

theorem submit_quiz_unknown_id_is_500:
  "index e (quiz_id s) = None \<Longrightarrow>
     submit_quiz e s =
       (Inl (HTTPException 500 (Str (HTTPException 404 (Text ''Quiz not found'')))), e)"
  by (simp add: submit_quiz_def submit_quiz_try_def fetch_single)

theorem submit_quiz_unknown_id_is_500_witness:
  "index stored_env (quiz_id unknown_submission) = None \<and>
   submit_quiz stored_env unknown_submission =
     (Inl (HTTPException 500 (Str (HTTPException 404 (Text ''Quiz not found'')))), stored_env)"
proof -
  have h: "index stored_env (quiz_id unknown_submission) = None"
    by (simp add: stored_env_def unknown_submission_def)
  show ?thesis using h submit_quiz_unknown_id_is_500 [OF h] by simp
qed

section \<open>Submission: the score\<close>

lemma score_loop_bounds:
  "score_loop rs a qs = Inr s \<Longrightarrow> a \<le> s \<and> s \<le> a + int (length qs)"
proof (induction qs arbitrary: a)
  case Nil
  then show ?case by simp
next
  case (Cons q qs)
  then show ?case
    by (fastforce split: sum.splits if_splits)
qed

text \<open>
  Python's comparison agrees with the specification's wording on every question whose
  stored answer is not \<^verbatim>\<open>None\<close>.
\<close>

lemma py_eq_answered:
  assumes "getitem q ''id'' = Inr i" and "responses_get rs i = Inr a"
      and "getitem q ''correct_answer'' = Inr c" and "c \<noteq> PNone"
  shows "py_eq a c = answered_correctly rs q"
proof (cases i)
  case (PStr k)
  with assms show ?thesis
    by (cases "rs k"; cases c) (auto simp: answered_correctly_def)
next
  case PNone
  with assms show ?thesis by (cases c) (auto simp: answered_correctly_def)
next
  case (PBool b)
  with assms show ?thesis by (cases c) (auto simp: answered_correctly_def)
next
  case (PInt n)
  with assms show ?thesis by (cases c) (auto simp: answered_correctly_def)
next
  case (PFloat f)
  with assms show ?thesis by (cases c) (auto simp: answered_correctly_def)
next
  case (PList xs)
  with assms show ?thesis by simp
next
  case (PDict d)
  with assms show ?thesis by simp
qed

lemma score_loop_claimed:
  "score_loop rs a qs = Inr s \<Longrightarrow> \<forall>q\<in>set qs. getitem q ''correct_answer'' \<noteq> Inr PNone
     \<Longrightarrow> s = a + claimed_score rs qs"
proof (induction qs arbitrary: a)
  case Nil
  then show ?case by (simp add: claimed_score_def)
next
  case (Cons q qs)
  from Cons.prems(1) obtain i x c where
    i: "getitem q ''id'' = Inr i" and x: "responses_get rs i = Inr x"
    and c: "getitem q ''correct_answer'' = Inr c"
    and rest: "score_loop rs (if py_eq x c then a + 1 else a) qs = Inr s"
    by (auto split: sum.splits)
  from Cons.prems(2) c have "c \<noteq> PNone" by auto
  with i x c have eq: "py_eq x c = answered_correctly rs q" by (rule py_eq_answered)
  from Cons.prems(2) have "\<forall>q\<in>set qs. getitem q ''correct_answer'' \<noteq> Inr PNone" by simp
  with Cons.IH rest have "s = (if py_eq x c then a + 1 else a) + claimed_score rs qs" by blast
  with eq show ?case by (simp add: claimed_score_def)
qed

text \<open>What a successful submission went through.\<close>

lemma submit_quiz_success:
  assumes "submit_quiz e s = (Inr body, e')"
  obtains v questions qs score where
    "index e (quiz_id s) = Some v"
    "dict_get (metadata v) ''questions'' = Some questions"
    "py_iter questions = Inr qs"
    "score_loop (responses s) 0 qs = Inr score"
    "body = PDict [(''score'', PInt score), (''total'', PInt (int (length qs)))]"
    "e' = e\<lparr>index := (index e)(quiz_id s \<mapsto>
            v\<lparr>metadata := merge_metadata (metadata v)
                 (dict_set (dict_set (metadata v) ''score'' (PInt score))
                    ''completed'' (PBool True))\<rparr>)\<rparr>"
  using assms
  by (auto simp: submit_quiz_def submit_quiz_try_def fetch_single update_def Let_def
           split: option.splits sum.splits if_splits prod.splits)

text \<open>The example submission, evaluated step by step.\<close>

lemma stored_questions_example: "stored_questions example_vector = example_questions"
  by (simp add: stored_questions_def example_vector_def dict_get_def)

lemma example_fetch: "fetch stored_env [''quiz-1''] = [(''quiz-1'', example_vector)]"
  by (simp add: fetch_single stored_env_def)

lemma example_score: "score_loop example_responses 0 example_questions = Inr 1"
  by (simp add: example_responses_def example_questions_def dict_get_def)

lemma example_merge:
  "merge_metadata (metadata example_vector)
     (dict_set (dict_set (metadata example_vector) ''score'' (PInt 1)) ''completed'' (PBool True))
   = metadata example_vector_after"
  by (simp add: merge_metadata_def example_vector_def example_vector_after_def dict_set_def
        dict_get_def)

lemma example_update:
  "update stored_env ''quiz-1''
     (dict_set (dict_set (metadata example_vector) ''score'' (PInt 1)) ''completed'' (PBool True))
   = Inr stored_env_after"
proof -
  have "example_vector\<lparr>metadata := metadata example_vector_after\<rparr> = example_vector_after"
    by (simp add: example_vector_def example_vector_after_def)
  then show ?thesis
    by (simp add: update_def example_merge stored_env_def stored_env_after_def)
qed

lemma submit_example_run:
  "submit_quiz stored_env example_submission =
     (Inr (PDict [(''score'', PInt 1), (''total'', PInt 2)]), stored_env_after)"
proof -
  have m: "dict_get (metadata example_vector) ''questions'' = Some (PList example_questions)"
    by (simp add: example_vector_def dict_get_def)
  have l: "length example_questions = 2" by (simp add: example_questions_def)
  show ?thesis
    by (simp add: submit_quiz_def submit_quiz_try_def example_submission_def example_fetch m
          example_score example_update l)
qed

lemma example_index: "index stored_env (quiz_id example_submission) = Some example_vector"
  by (simp add: stored_env_def example_submission_def)

lemma example_index_after:
  "index stored_env_after (quiz_id example_submission) = Some example_vector_after"
  by (simp add: stored_env_after_def example_submission_def)

lemma example_claimed_score:
  "claimed_score (responses example_submission) (stored_questions example_vector) = 1"
  by (simp add: stored_questions_example example_submission_def example_responses_def
        example_questions_def claimed_score_def answered_correctly_def dict_get_def)

text \<open>
  Claim C3, as amended. A successful \<^verbatim>\<open>submit_quiz\<close> on a record none of whose stored
  answers is \<^verbatim>\<open>None\<close> returns as score the number of questions whose response is present
  and equal, as a string, to the stored answer; it returns as total the number of stored
  questions; and the record stored afterwards has \<^verbatim>\<open>completed\<close> true and that score.
\<close>

theorem submit_quiz_score_counts_matches:
  assumes "submit_quiz e s = (Inr body, e')"
      and "index e (quiz_id s) = Some v"
      and "\<forall>q\<in>set (stored_questions v). getitem q ''correct_answer'' \<noteq> Inr PNone"
  shows "body = PDict [(''score'', PInt (claimed_score (responses s) (stored_questions v))),
                       (''total'', PInt (int (length (stored_questions v))))] \<and>
         (\<exists>v'. index e' (quiz_id s) = Some v' \<and>
            dict_get (metadata v') ''completed'' = Some (PBool True) \<and>
            dict_get (metadata v') ''score'' =
              Some (PInt (claimed_score (responses s) (stored_questions v))))"
proof -
  from assms(1) obtain v0 questions qs score where
    v0: "index e (quiz_id s) = Some v0"
    and q: "dict_get (metadata v0) ''questions'' = Some questions"
    and it: "py_iter questions = Inr qs"
    and sc: "score_loop (responses s) 0 qs = Inr score"
    and body: "body = PDict [(''score'', PInt score), (''total'', PInt (int (length qs)))]"
    and e': "e' = e\<lparr>index := (index e)(quiz_id s \<mapsto>
            v0\<lparr>metadata := merge_metadata (metadata v0)
                 (dict_set (dict_set (metadata v0) ''score'' (PInt score))
                    ''completed'' (PBool True))\<rparr>)\<rparr>"
    by (rule submit_quiz_success)
  from v0 assms(2) have v: "v0 = v" by simp
  from q it v have sq: "stored_questions v = qs" by (simp add: stored_questions_def)
  from sc assms(3) sq have score: "score = claimed_score (responses s) qs"
    using score_loop_claimed by fastforce
  show ?thesis
    using body e' sq score
    by (simp add: dict_get_merge_metadata dict_get_dict_set)
qed

theorem submit_quiz_score_counts_matches_witness:
  "submit_quiz stored_env example_submission =
     (Inr (PDict [(''score'', PInt 1), (''total'', PInt 2)]), stored_env_after) \<and>
   index stored_env (quiz_id example_submission) = Some example_vector \<and>
   claimed_score (responses example_submission) (stored_questions example_vector) = 1 \<and>
   length (stored_questions example_vector) = 2 \<and>
   (\<exists>v'. index stored_env_after (quiz_id example_submission) = Some v' \<and>
      dict_get (metadata v') ''completed'' = Some (PBool True) \<and>
      dict_get (metadata v') ''score'' = Some (PInt 1))"
proof -
  have h3: "\<forall>q\<in>set (stored_questions example_vector). getitem q ''correct_answer'' \<noteq> Inr PNone"
    by (simp add: stored_questions_example example_questions_def dict_get_def)
  have l: "length (stored_questions example_vector) = 2"
    by (simp add: stored_questions_example example_questions_def)
  note t = submit_quiz_score_counts_matches [OF submit_example_run example_index h3]
  from t have "\<exists>v'. index stored_env_after (quiz_id example_submission) = Some v' \<and>
      dict_get (metadata v') ''completed'' = Some (PBool True) \<and>
      dict_get (metadata v') ''score'' = Some (PInt 1)"
    unfolding example_claimed_score by (rule conjunct2)
  with submit_example_run example_index example_claimed_score l show ?thesis
    by (intro conjI)
qed

text \<open>
  Claim C3 as stated fails on a stored question whose answer is \<^verbatim>\<open>None\<close> (the model's
  text had \<^verbatim>\<open>"correct_answer": null\<close>, which is stored as it is): with no response for it,
  \<^verbatim>\<open>responses.get\<close> returns \<^verbatim>\<open>None\<close>, the comparison \<^verbatim>\<open>None == None\<close> holds and the
  question is counted. The submission without responses scores 1 of 1, where the claim
  counts 0.
\<close>

theorem submit_quiz_null_answer_counterexample:
  "fst (submit_quiz null_answer_env empty_submission) =
     Inr (PDict [(''score'', PInt 1), (''total'', PInt 1)]) \<and>
   index null_answer_env (quiz_id empty_submission) = Some null_answer_vector \<and>
   claimed_score (responses empty_submission) (stored_questions null_answer_vector) = 0"
proof -
  have f: "fetch null_answer_env [''quiz-1''] = [(''quiz-1'', null_answer_vector)]"
    by (simp add: fetch_single null_answer_env_def)
  have m: "dict_get (metadata null_answer_vector) ''questions'' =
      Some (PList null_answer_questions)"
    by (simp add: null_answer_vector_def dict_get_def)
  have s: "score_loop Map.empty 0 null_answer_questions = Inr 1"
    by (simp add: null_answer_questions_def dict_get_def)
  have l: "length null_answer_questions = 1"
    by (simp add: null_answer_questions_def)
  have "\<exists>e'. update null_answer_env ''quiz-1''
      (dict_set (dict_set (metadata null_answer_vector) ''score'' (PInt 1))
         ''completed'' (PBool True)) = Inr e'"
    by (simp add: update_def null_answer_env_def)
  then obtain e' where u: "update null_answer_env ''quiz-1''
      (dict_set (dict_set (metadata null_answer_vector) ''score'' (PInt 1))
         ''completed'' (PBool True)) = Inr e'"
    by blast
  have run: "fst (submit_quiz null_answer_env empty_submission) =
      Inr (PDict [(''score'', PInt 1), (''total'', PInt 1)])"
    by (simp add: submit_quiz_def submit_quiz_try_def empty_submission_def f m s u l)
  have i: "index null_answer_env (quiz_id empty_submission) = Some null_answer_vector"
    by (simp add: null_answer_env_def empty_submission_def)
  have sq: "stored_questions null_answer_vector = null_answer_questions"
    by (simp add: stored_questions_def m)
  have c: "claimed_score (responses empty_submission) (stored_questions null_answer_vector) = 0"
    by (simp add: sq empty_submission_def claimed_score_def answered_correctly_def
          null_answer_questions_def dict_get_def)
  from run i c show ?thesis by (intro conjI)
qed

section \<open>Submission: what the update leaves alone\<close>

text \<open>
  Claim C8. A successful \<^verbatim>\<open>submit_quiz\<close> changes nothing of the stored record but the
  fields \<^verbatim>\<open>score\<close> and \<^verbatim>\<open>completed\<close>: every other metadata field, \<^verbatim>\<open>user_id\<close>,
  \<^verbatim>\<open>topic\<close>, \<^verbatim>\<open>difficulty\<close> and \<^verbatim>\<open>questions\<close> among them, reads as before, and so do the
  placeholder vector and every other record of the store.
\<close>

theorem submit_quiz_frame:
  assumes "submit_quiz e s = (Inr body, e')"
  shows "\<exists>v v'. index e (quiz_id s) = Some v \<and> index e' (quiz_id s) = Some v' \<and>
           vec_values v' = vec_values v \<and>
           (\<forall>k. k \<noteq> ''score'' \<and> k \<noteq> ''completed'' \<longrightarrow>
                dict_get (metadata v') k = dict_get (metadata v) k) \<and>
           (\<forall>i. i \<noteq> quiz_id s \<longrightarrow> index e' i = index e i)"
  using assms
  by (elim submit_quiz_success)
     (auto simp: dict_get_merge_metadata dict_get_dict_set split: option.splits)

theorem submit_quiz_frame_witness:
  "submit_quiz stored_env example_submission =
     (Inr (PDict [(''score'', PInt 1), (''total'', PInt 2)]), stored_env_after) \<and>
   (\<exists>v v'. index stored_env (quiz_id example_submission) = Some v \<and>
      index stored_env_after (quiz_id example_submission) = Some v' \<and>
      vec_values v' = vec_values v \<and>
      (\<forall>k. k \<noteq> ''score'' \<and> k \<noteq> ''completed'' \<longrightarrow>
           dict_get (metadata v') k = dict_get (metadata v) k) \<and>
      (\<forall>i. i \<noteq> quiz_id example_submission \<longrightarrow>
           index stored_env_after i = index stored_env i))"
proof (rule conjI)
  show "submit_quiz stored_env example_submission =
     (Inr (PDict [(''score'', PInt 1), (''total'', PInt 2)]), stored_env_after)"
    by (rule submit_example_run)
  show "\<exists>v v'. index stored_env (quiz_id example_submission) = Some v \<and>
      index stored_env_after (quiz_id example_submission) = Some v' \<and>
      vec_values v' = vec_values v \<and>
      (\<forall>k. k \<noteq> ''score'' \<and> k \<noteq> ''completed'' \<longrightarrow>
           dict_get (metadata v') k = dict_get (metadata v) k) \<and>
      (\<forall>i. i \<noteq> quiz_id example_submission \<longrightarrow>
           index stored_env_after i = index stored_env i)"
    by (rule submit_quiz_frame [OF submit_example_run])
qed

section \<open>Submission: the score lies between zero and the total\<close>

text \<open>
  Claim C10. A successful \<^verbatim>\<open>submit_quiz\<close> returns and stores a score between 0 and the
  total, and the total is the number of questions of the record. \<^verbatim>\<open>submit_quiz\<close> is the
  only operation that writes a score.
\<close>

theorem submit_quiz_score_bounds:
  assumes "submit_quiz e s = (Inr body, e')"
  shows "\<exists>v v' score. index e (quiz_id s) = Some v \<and> index e' (quiz_id s) = Some v' \<and>
           body = PDict [(''score'', PInt score),
                         (''total'', PInt (int (length (stored_questions v))))] \<and>
           dict_get (metadata v') ''score'' = Some (PInt score) \<and>
           0 \<le> score \<and> score \<le> int (length (stored_questions v))"
proof -
  from assms obtain v questions qs score where
    v: "index e (quiz_id s) = Some v"
    and q: "dict_get (metadata v) ''questions'' = Some questions"
    and it: "py_iter questions = Inr qs"
    and sc: "score_loop (responses s) 0 qs = Inr score"
    and body: "body = PDict [(''score'', PInt score), (''total'', PInt (int (length qs)))]"
    and e': "e' = e\<lparr>index := (index e)(quiz_id s \<mapsto>
            v\<lparr>metadata := merge_metadata (metadata v)
                 (dict_set (dict_set (metadata v) ''score'' (PInt score))
                    ''completed'' (PBool True))\<rparr>)\<rparr>"
    by (rule submit_quiz_success)
  from q it have sq: "stored_questions v = qs" by (simp add: stored_questions_def)
  from score_loop_bounds [OF sc] have "0 \<le> score \<and> score \<le> int (length qs)" by simp
  with v body e' sq show ?thesis
    by (simp add: dict_get_merge_metadata dict_get_dict_set)
qed

theorem submit_quiz_score_bounds_witness:
  "submit_quiz stored_env example_submission =
     (Inr (PDict [(''score'', PInt 1), (''total'', PInt 2)]), stored_env_after) \<and>
   (\<exists>v v' score. index stored_env (quiz_id example_submission) = Some v \<and>
      index stored_env_after (quiz_id example_submission) = Some v' \<and>
      PDict [(''score'', PInt 1), (''total'', PInt 2)] =
        PDict [(''score'', PInt score), (''total'', PInt (int (length (stored_questions v))))] \<and>
      dict_get (metadata v') ''score'' = Some (PInt score) \<and>
      0 \<le> score \<and> score \<le> int (length (stored_questions v)))"
proof (rule conjI)
  show "submit_quiz stored_env example_submission =
     (Inr (PDict [(''score'', PInt 1), (''total'', PInt 2)]), stored_env_after)"
    by (rule submit_example_run)
  show "\<exists>v v' score. index stored_env (quiz_id example_submission) = Some v \<and>
      index stored_env_after (quiz_id example_submission) = Some v' \<and>
      PDict [(''score'', PInt 1), (''total'', PInt 2)] =
        PDict [(''score'', PInt score), (''total'', PInt (int (length (stored_questions v))))] \<and>
      dict_get (metadata v') ''score'' = Some (PInt score) \<and>
      0 \<le> score \<and> score \<le> int (length (stored_questions v))"
    by (rule submit_quiz_score_bounds [OF submit_example_run])
qed

section \<open>Generation: the handler of the source never gets past the prompt\<close>













end
